theory Spec2Isabelle
  imports Complex_Main "HOL-Library.Product_Lexorder"
begin

section \<open>Do-Gooder server: the control object of \<^verbatim>\<open>dogooder/control.py\<close>\<close>

text \<open>
  The development embeds the public interface of \<^verbatim>\<open>Control\<close>: the self-closing
  session, the deferred broadcast queue, the daily deed selection, the vote ledger and the
  deed insertion. Exceptions are values of type \<open>error\<close>, the database is a record of
  three tables, and every method takes the state it reads and returns the state it leaves.
\<close>

subsection \<open>Exceptions\<close>

text \<open>
  The exceptions the code can raise. \<^verbatim>\<open>raise Exception("...")\<close> keeps its message: the
  two domain failures of the code are the plain exceptions with the messages
  \<^verbatim>\<open>Deed already accomplished today\<close> and \<^verbatim>\<open>Email or password incorrect\<close>.
\<close>

datatype error =
    ValueError
  | OverflowError
  | ZeroDivisionError
  | AttributeError
  | NoResultFound
  | MultipleResultsFound
  | Exception string

subsection \<open>Naive datetimes\<close>

text \<open>
  \<^verbatim>\<open>datetime.datetime\<close> without a time zone: seven integer fields, compared
  lexicographically. The constructor checks its arguments and raises \<^verbatim>\<open>ValueError\<close>
  when the day does not exist in the month.
\<close>

record datetime =
  year :: int
  month :: int
  day :: int
  hour :: int
  minute :: int
  second :: int
  microsecond :: int

definition is_leap :: "int \<Rightarrow> bool" where
  "is_leap y = (if y mod 400 = 0 then True else if y mod 100 = 0 then False else y mod 4 = 0)"

definition days_in_month :: "int \<Rightarrow> int \<Rightarrow> int" where
  "days_in_month y m =
     (if m = 2 then (if is_leap y then 29 else 28)
      else if m = 4 then 30 else if m = 6 then 30 else if m = 9 then 30 else if m = 11 then 30
      else 31)"

definition mk_datetime :: "int \<Rightarrow> int \<Rightarrow> int \<Rightarrow> error + datetime" where
  "mk_datetime y m d =
     (if 1 \<le> y \<and> y \<le> 9999 \<and> 1 \<le> m \<and> m \<le> 12 \<and> 1 \<le> d \<and> d \<le> days_in_month y m
      then Inr \<lparr>year = y, month = m, day = d, hour = 0, minute = 0, second = 0, microsecond = 0\<rparr>
      else Inl ValueError)"

text \<open>\<^verbatim>\<open>dt + datetime.timedelta(days=1)\<close>; past 9999-12-31 it raises \<^verbatim>\<open>OverflowError\<close>.\<close>

definition plus_one_day :: "datetime \<Rightarrow> error + datetime" where
  "plus_one_day dt =
     (if day dt < days_in_month (year dt) (month dt) then Inr (dt\<lparr>day := day dt + 1\<rparr>)
      else if month dt < 12 then Inr (dt\<lparr>month := month dt + 1, day := 1\<rparr>)
      else if year dt < 9999 then Inr (dt\<lparr>year := year dt + 1, month := 1, day := 1\<rparr>)
      else Inl OverflowError)"

definition dt_key :: "datetime \<Rightarrow> int \<times> int \<times> int \<times> int \<times> int \<times> int \<times> int" where
  "dt_key dt = (year dt, month dt, day dt, hour dt, minute dt, second dt, microsecond dt)"

definition dt_less :: "datetime \<Rightarrow> datetime \<Rightarrow> bool" where
  "dt_less a b = (dt_key a < dt_key b)"

definition dt_le :: "datetime \<Rightarrow> datetime \<Rightarrow> bool" where
  "dt_le a b = (dt_key a \<le> dt_key b)"

text \<open>What the clock can return: an existing day and a time of day.\<close>

definition valid_datetime :: "datetime \<Rightarrow> bool" where
  "valid_datetime dt =
     (1 \<le> year dt \<and> year dt \<le> 9999 \<and> 1 \<le> month dt \<and> month dt \<le> 12 \<and>
      1 \<le> day dt \<and> day dt \<le> days_in_month (year dt) (month dt) \<and>
      0 \<le> hour dt \<and> hour dt < 24 \<and> 0 \<le> minute dt \<and> minute dt < 60 \<and>
      0 \<le> second dt \<and> second dt < 60 \<and> 0 \<le> microsecond dt \<and> microsecond dt < 1000000)"

definition same_day :: "datetime \<Rightarrow> datetime \<Rightarrow> bool" where
  "same_day a b = (year a = year b \<and> month a = month b \<and> day a = day b)"

subsection \<open>Entities and their representations\<close>

record user =
  u_id :: int
  email :: string
  password :: string

record deed =
  d_id :: int
  description :: string
  created :: datetime

record accomplishment =
  a_id :: int
  deed_id :: int
  user_id :: int
  completed :: datetime

text \<open>
  Modelled from the spec: the \<^verbatim>\<open>to_json\<close> methods of the model classes, which are not
  among the sources. A deed's view has the fields id, description, created and an optional
  \<^verbatim>\<open>percent_of_votes\<close> (the number the float stands for); a user's view carries the identity the client keeps.
\<close>

record deed_view =
  v_id :: int
  v_description :: string
  v_created :: datetime
  percent_of_votes :: "rat option"

record user_view =
  uv_id :: int
  uv_email :: string

definition to_json :: "deed \<Rightarrow> deed_view" where
  "to_json d = \<lparr>v_id = d_id d, v_description = description d, v_created = created d,
                percent_of_votes = None\<rparr>"

definition user_to_json :: "user \<Rightarrow> user_view" where
  "user_to_json u = \<lparr>uv_id = u_id u, uv_email = email u\<rparr>"

subsection \<open>The database and the ORM session\<close>

record db =
  users :: "user list"
  deeds :: "deed list"
  accomplishments :: "accomplishment list"

datatype session_op = Commit | Rollback | Close

text \<open>
  A session works on its own view of the database. \<open>committed\<close> is what the engine
  stores, \<open>view\<close> what the session sees (its flushed, uncommitted rows included), and
  \<open>trace\<close> the calls made on the session.
\<close>

record db_session =
  committed :: db
  view :: db
  trace :: "session_op list"

definition new_session :: "db \<Rightarrow> db_session" where
  "new_session d = \<lparr>committed = d, view = d, trace = []\<rparr>"

definition commit :: "db_session \<Rightarrow> db_session" where
  "commit s = s\<lparr>committed := view s, trace := trace s @ [Commit]\<rparr>"

definition rollback :: "db_session \<Rightarrow> db_session" where
  "rollback s = s\<lparr>view := committed s, trace := trace s @ [Rollback]\<rparr>"

definition close :: "db_session \<Rightarrow> db_session" where
  "close s = s\<lparr>trace := trace s @ [Close]\<rparr>"

text \<open>\<^verbatim>\<open>Query.one()\<close> and \<^verbatim>\<open>Query.one_or_none()\<close> on the rows a query selects.\<close>

definition one :: "'a list \<Rightarrow> error + 'a" where
  "one rows = (case rows of [] \<Rightarrow> Inl NoResultFound
                 | [r] \<Rightarrow> Inr r
                 | _ # _ # _ \<Rightarrow> Inl MultipleResultsFound)"

definition one_or_none :: "'a list \<Rightarrow> error + 'a option" where
  "one_or_none rows = (case rows of [] \<Rightarrow> Inr None
                 | [r] \<Rightarrow> Inr (Some r)
                 | _ # _ # _ \<Rightarrow> Inl MultipleResultsFound)"

text \<open>The key an auto-increment column gives the next row.\<close>

definition next_id :: "int list \<Rightarrow> int" where
  "next_id ids = foldr max ids 0 + 1"

subsection \<open>Clients and the control object\<close>

text \<open>
  Modelled from the spec: the websocket client of the transport layer, which is not among
  the sources. It keeps the view of its signed-in user, \<^verbatim>\<open>current_user\<close> is that user's
  id (or \<^verbatim>\<open>None\<close>), and \<^verbatim>\<open>broadcast(news)\<close> delivers one message to it; \<open>inbox\<close>
  records the deliveries in order.
\<close>

type_synonym news = "string \<times> deed_view"

record client =
  c_user :: "user_view option"
  inbox :: "news list"

definition current_user :: "client \<Rightarrow> int option" where
  "current_user c = map_option uv_id (c_user c)"

definition deliver :: "client \<Rightarrow> news \<Rightarrow> client" where
  "deliver c n = c\<lparr>inbox := inbox c @ [n]\<rparr>"

type_synonym event = "string \<times> deed_view \<times> int list option"

record control =
  store :: db
  clients :: "client list"
  pending :: "event list"

subsection \<open>The self-closing session\<close>

text \<open>
  \<^verbatim>\<open>Control.session\<close>: a session is made from the engine, the body of the
  \<^verbatim>\<open>with\<close> statement runs on it, then \<^verbatim>\<open>commit\<close> on a normal return, or
  \<^verbatim>\<open>rollback\<close> and the same exception again, and \<^verbatim>\<open>close\<close> in both cases. The
  body may change the control object as well (its pending list), which no rollback undoes.
  The result is what the caller sees, the control object with the database as the engine
  now stores it, and the trace of the session.
\<close>

definition session ::
  "control \<Rightarrow> (control \<Rightarrow> db_session \<Rightarrow> (error + 'a) \<times> control \<times> db_session)
     \<Rightarrow> (error + 'a) \<times> control \<times> session_op list" where
  "session ctl work =
     (case work ctl (new_session (store ctl)) of
        (Inr v, ctl1, s1) \<Rightarrow>
          (let s2 = close (commit s1) in (Inr v, ctl1\<lparr>store := committed s2\<rparr>, trace s2))
      | (Inl e, ctl1, s1) \<Rightarrow>
          (let s2 = close (rollback s1) in (Inl e, ctl1\<lparr>store := committed s2\<rparr>, trace s2)))"

subsection \<open>The broadcast queue\<close>

text \<open>\<^verbatim>\<open>accl is PUBLIC or client.current_user in accl\<close>.\<close>

definition interested :: "int list option \<Rightarrow> client \<Rightarrow> bool" where
  "interested accl c =
     (case accl of None \<Rightarrow> True
      | Some us \<Rightarrow> (case current_user c of None \<Rightarrow> False | Some u \<Rightarrow> List.member us u))"

definition broadcast :: "control \<Rightarrow> event \<Rightarrow> control" where
  "broadcast ctl ev =
     (case ev of (signal, message, accl) \<Rightarrow>
        ctl\<lparr>clients := map (\<lambda>c. if interested accl c then deliver c (signal, message) else c)
                            (clients ctl)\<rparr>)"

definition broadcast_on_success ::
  "control \<Rightarrow> string \<Rightarrow> deed_view \<Rightarrow> int list option \<Rightarrow> control" where
  "broadcast_on_success ctl signal message accl =
     ctl\<lparr>pending := pending ctl @ [(signal, message, accl)]\<rparr>"

definition broadcast_result ::
  "control \<Rightarrow> string \<Rightarrow> deed_view \<Rightarrow> int list option \<Rightarrow> deed_view \<times> control" where
  "broadcast_result ctl signal message accl =
     (message, broadcast_on_success ctl signal message accl)"

text \<open>
  \<^verbatim>\<open>Control._flush(error=None)\<close>. The argument is the exception of the failed work, or
  \<^verbatim>\<open>None\<close>; an exception object is true in a condition, so \<^verbatim>\<open>not error\<close> holds
  exactly for \<^verbatim>\<open>None\<close>.
\<close>

definition flush :: "control \<Rightarrow> error option \<Rightarrow> control" where
  "flush ctl err =
     (let ctl1 = (case err of None \<Rightarrow> foldl broadcast ctl (pending ctl) | Some e \<Rightarrow> ctl)
      in ctl1\<lparr>pending := []\<rparr>)"

subsection \<open>The vote ledger\<close>

text \<open>
  Modelled from the spec: the decorator \<^verbatim>\<open>user_session\<close>, which is not among the sources.
  It runs the decorated body inside one session scope, with the caller's user and the
  session as the body's first arguments.
\<close>

definition user_session ::
  "(control \<Rightarrow> user \<Rightarrow> db_session \<Rightarrow> 'b \<Rightarrow> (error + 'a) \<times> control \<times> db_session)
     \<Rightarrow> control \<Rightarrow> user \<Rightarrow> 'b \<Rightarrow> (error + 'a) \<times> control" where
  "user_session f ctl u arg =
     (case session ctl (\<lambda>c s. f c u s arg) of (r, ctl1, tr) \<Rightarrow> (r, ctl1))"

text \<open>Rows of the session: \<^verbatim>\<open>session.add(row); session.flush()\<close>.\<close>

definition add_accomplishment :: "db_session \<Rightarrow> accomplishment \<Rightarrow> db_session" where
  "add_accomplishment s a =
     s\<lparr>view := (view s)\<lparr>accomplishments := accomplishments (view s) @ [a]\<rparr>\<rparr>"

definition add_deed :: "db_session \<Rightarrow> deed \<Rightarrow> db_session" where
  "add_deed s d = s\<lparr>view := (view s)\<lparr>deeds := deeds (view s) @ [d]\<rparr>\<rparr>"

text \<open>
  The body of \<^verbatim>\<open>Control.accomplish_deed\<close>. \<open>now\<close> is what \<^verbatim>\<open>utcnow()\<close> returns.
  \<open>tomorrow\<close> is built by the constructor from \<^verbatim>\<open>now.day + 1\<close>. The new row's
  \<open>completed\<close> is the current instant (modelled from the spec: the column default of the
  \<^verbatim>\<open>Accomplishment\<close> class is not among the sources).
\<close>

definition accomplish_deed ::
  "datetime \<Rightarrow> control \<Rightarrow> user \<Rightarrow> db_session \<Rightarrow> int \<Rightarrow> (error + unit) \<times> control \<times> db_session" where
  "accomplish_deed now ctl u s i =
     (case mk_datetime (year now) (month now) (day now) of
        Inl e \<Rightarrow> (Inl e, ctl, s)
      | Inr today \<Rightarrow>
     (case mk_datetime (year now) (month now) (day now + 1) of
        Inl e \<Rightarrow> (Inl e, ctl, s)
      | Inr tomorrow \<Rightarrow>
     (let todays_deeds = filter (\<lambda>a. user_id a = u_id u \<and> dt_le today (completed a)
                                      \<and> dt_less (completed a) tomorrow)
                                (accomplishments (view s))
      in if length todays_deeds \<ge> 1
         then (Inl (Exception ''Deed already accomplished today''), ctl, s)
         else (case one (filter (\<lambda>d. d_id d = i) (deeds (view s))) of
                 Inl e \<Rightarrow> (Inl e, ctl, s)
               | Inr d \<Rightarrow>
                 (let a = \<lparr>a_id = next_id (map a_id (accomplishments (view s))),
                           deed_id = d_id d, user_id = u_id u, completed = now\<rparr>;
                      s1 = add_accomplishment s a
                  in (Inr (), broadcast_on_success ctl ''update_deed'' (to_json d) None, s1))))))"

definition accomplish_deed_call ::
  "datetime \<Rightarrow> control \<Rightarrow> user \<Rightarrow> int \<Rightarrow> (error + unit) \<times> control" where
  "accomplish_deed_call now = user_session (accomplish_deed now)"

subsection \<open>Signing in\<close>

text \<open>
  \<^verbatim>\<open>Control.sign_in\<close>. The \<^verbatim>\<open>User\<close> class is not among the sources, so its
  \<^verbatim>\<open>authenticate\<close> is a parameter: \<open>authenticate u pw\<close> is true when the password is
  accepted, and a rejected password raises the \<^verbatim>\<open>ValueError\<close> that \<^verbatim>\<open>sign_in\<close>
  catches. The client is passed by value and returned as the call leaves it.
\<close>

definition sign_in ::
  "(user \<Rightarrow> string \<Rightarrow> bool) \<Rightarrow> control \<Rightarrow> client \<Rightarrow> string \<Rightarrow> string
     \<Rightarrow> (error + unit) \<times> client \<times> control" where
  "sign_in authenticate ctl cl em pw =
     (case session ctl (\<lambda>c s.
        (let attempt = (case one (filter (\<lambda>u. email u = em) (users (view s))) of
                          Inl e \<Rightarrow> Inl e
                        | Inr u \<Rightarrow> if authenticate u pw then Inr u else Inl ValueError)
         in case attempt of
              Inl NoResultFound \<Rightarrow> (Inl (Exception ''Email or password incorrect''), c, s)
            | Inl ValueError \<Rightarrow> (Inl (Exception ''Email or password incorrect''), c, s)
            | Inl e \<Rightarrow> (Inl e, c, s)
            | Inr u \<Rightarrow> (Inr (cl\<lparr>c_user := Some (user_to_json u)\<rparr>), c, s)))
      of (Inl e, ctl1, tr) \<Rightarrow> (Inl e, cl, ctl1)
       | (Inr cl1, ctl1, tr) \<Rightarrow> (Inr (), cl1, ctl1))"

definition sign_out :: "client \<Rightarrow> client" where
  "sign_out cl = cl\<lparr>c_user := None\<rparr>"

subsection \<open>Today's deeds\<close>

text \<open>
  \<^verbatim>\<open>achieved.deed_id is deed_id\<close> compares two integer objects by identity. The two
  operands come from two different queries, so they are two objects unless the
  interpreter shares them, which CPython does for the integers from -5 to 256 only.
\<close>

definition int_is :: "int \<Rightarrow> int \<Rightarrow> bool" where
  "int_is a b = (a = b \<and> -5 \<le> a \<and> a \<le> 256)"

text \<open>\<^verbatim>\<open>int(today.strftime('%Y%m%d'))\<close>: month and day are always two digits.\<close>

definition seed_of :: "datetime \<Rightarrow> int" where
  "seed_of today = year today * 10000 + month today * 100 + day today"

text \<open>The rows of \<^verbatim>\<open>GROUP BY deed_id\<close> with \<^verbatim>\<open>count(deed_id)\<close>.\<close>

definition group_count :: "accomplishment list \<Rightarrow> (int \<times> int) list" where
  "group_count rows =
     map (\<lambda>k. (k, int (length (filter (\<lambda>a. deed_id a = k) rows)))) (remdups (map deed_id rows))"

subsection \<open>Floats\<close>

text \<open>
  \<^verbatim>\<open>100 * float(count) / float(total_votes)\<close> is computed in double precision. A
  double is a pair \<open>(m, e)\<close> that stands for \<open>m * 2 ^ e\<close>; every operation gives the
  double nearest to the exact result, ties to the even significand of 53 bits.
  \<open>bit_length\<close> is Python's \<^verbatim>\<open>int.bit_length\<close>. The operands here are counts
  of rows, so they are not negative, and they are far from the largest double: signs,
  overflow and subnormal numbers are left out.
\<close>

function bit_length :: "int \<Rightarrow> nat" where
  "bit_length n = (if n \<le> 0 then 0 else Suc (bit_length (n div 2)))"
  by pat_completeness auto
termination
  by (relation "measure nat") auto

declare bit_length.simps [simp del]

type_synonym double = "int \<times> int"

text \<open>The double nearest to \<open>p / q\<close>, for \<open>0 \<le> p\<close> and \<open>0 < q\<close>.\<close>

definition round_ratio :: "int \<Rightarrow> int \<Rightarrow> double" where
  "round_ratio p q =
     (if p = 0 then (0, 0)
      else (let d = int (bit_length p) - int (bit_length q);
                e = (if (if 0 \<le> d then q * 2 ^ nat d \<le> p else q \<le> p * 2 ^ nat (- d))
                     then d else d - 1);
                s = 52 - e;
                N = (if 0 \<le> s then p * 2 ^ nat s else p);
                D = (if 0 \<le> s then q else q * 2 ^ nat (- s));
                f = N div D;
                r = N mod D;
                m = (if 2 * r < D then f else if D < 2 * r then f + 1
                     else if even f then f else f + 1)
            in (m, - s)))"

definition float_of_int :: "int \<Rightarrow> double" where
  "float_of_int n = round_ratio n 1"

definition float_mul :: "double \<Rightarrow> double \<Rightarrow> double" where
  "float_mul a b = (case round_ratio (fst a * fst b) 1 of (m, e) \<Rightarrow> (m, e + snd a + snd b))"

definition float_div :: "double \<Rightarrow> double \<Rightarrow> double" where
  "float_div a b = (case round_ratio (fst a) (fst b) of (m, e) \<Rightarrow> (m, e + snd a - snd b))"

text \<open>The number a double stands for.\<close>

definition double_value :: "double \<Rightarrow> rat" where
  "double_value a =
     (if 0 \<le> snd a then of_int (fst a) * 2 ^ nat (snd a) else of_int (fst a) / 2 ^ nat (- snd a))"

definition percent_of :: "int \<Rightarrow> int \<Rightarrow> rat" where
  "percent_of n total_votes =
     double_value (float_div (float_mul (float_of_int 100) (float_of_int n))
                             (float_of_int total_votes))"

subsection \<open>The queries of today's deeds\<close>

text \<open>
  The loop over the grouped rows; \<open>None\<close> when it ends without a \<^verbatim>\<open>return\<close>. The
  relationship \<^verbatim>\<open>achieved.deed\<close> is the deed the row points to. A float division by
  zero raises \<^verbatim>\<open>ZeroDivisionError\<close>.
\<close>

fun vote_loop ::
  "accomplishment \<Rightarrow> db \<Rightarrow> int \<Rightarrow> (int \<times> int) list \<Rightarrow> (error + deed_view list) option" where
  "vote_loop achieved d total_votes [] = None"
| "vote_loop achieved d total_votes ((k, n) # rest) =
     (if int_is (deed_id achieved) k
      then (if total_votes = 0 then Some (Inl ZeroDivisionError)
            else (case find (\<lambda>x. d_id x = deed_id achieved) (deeds d) of
                    None \<Rightarrow> Some (Inl AttributeError)
                  | Some x \<Rightarrow>
                      Some (Inr [(to_json x)\<lparr>percent_of_votes :=
                                   Some (percent_of n total_votes)\<rparr>])))
      else vote_loop achieved d total_votes rest)"

text \<open>
  The queries of \<^verbatim>\<open>Control.get_todays_deeds\<close> on a database. \<open>today\<close> is the current
  instant in the caller's time zone. The order \<^verbatim>\<open>func.rand(seed)\<close> is computed by the
  database engine, so it is the parameter \<open>rnd\<close>: the order the engine gives the
  selected rows for a seed.
\<close>

definition todays_deeds_query ::
  "(int \<Rightarrow> deed list \<Rightarrow> deed list) \<Rightarrow> db \<Rightarrow> client \<Rightarrow> datetime \<Rightarrow> error + deed_view list" where
  "todays_deeds_query rnd d cl today =
     (case mk_datetime (year today) (month today) (day today) of
        Inl e \<Rightarrow> Inl e
      | Inr today_start \<Rightarrow>
     (case plus_one_day today_start of
        Inl e \<Rightarrow> Inl e
      | Inr tomorrow \<Rightarrow>
     (let seed = seed_of today;
          candidates = take 2 (rnd seed (filter (\<lambda>x. dt_less (created x) today_start) (deeds d)));
          in_window = (\<lambda>a. dt_le today_start (completed a) \<and> dt_less (completed a) tomorrow)
      in case current_user cl of
           None \<Rightarrow> Inr (map to_json candidates)
         | Some uid \<Rightarrow>
             if uid = 0 then Inr (map to_json candidates)
             else (case one_or_none (filter (\<lambda>a. in_window a \<and> user_id a = uid)
                                            (accomplishments d)) of
                     Inl e \<Rightarrow> Inl e
                   | Inr None \<Rightarrow> Inr (map to_json candidates)
                   | Inr (Some achieved) \<Rightarrow>
                       (let result = group_count (filter in_window (accomplishments d));
                            total_votes = sum_list (map snd result)
                        in case vote_loop achieved d total_votes result of
                             Some r \<Rightarrow> r
                           | None \<Rightarrow> Inr (map to_json candidates))))))"

definition get_todays_deeds ::
  "(int \<Rightarrow> deed list \<Rightarrow> deed list) \<Rightarrow> control \<Rightarrow> client \<Rightarrow> datetime
     \<Rightarrow> (error + deed_view list) \<times> control" where
  "get_todays_deeds rnd ctl cl today =
     (case session ctl (\<lambda>c s. (todays_deeds_query rnd (view s) cl today, c, s)) of
        (r, ctl1, tr) \<Rightarrow> (r, ctl1))"

subsection \<open>Listing and inserting deeds\<close>

text \<open>\<^verbatim>\<open>Control.get_deeds\<close>; \<^verbatim>\<open>limit(None)\<close> selects every row.\<close>

definition get_deeds :: "control \<Rightarrow> nat option \<Rightarrow> (error + deed_view list) \<times> control" where
  "get_deeds ctl limit =
     (case session ctl (\<lambda>c s.
        (Inr (map to_json (case limit of None \<Rightarrow> deeds (view s)
                                       | Some n \<Rightarrow> take n (deeds (view s)))), c, s)) of
        (r, ctl1, tr) \<Rightarrow> (r, ctl1))"

text \<open>
  The body of \<^verbatim>\<open>Control.insert_deed\<close>. It has no \<^verbatim>\<open>return\<close> statement, so its value
  is Python's \<^verbatim>\<open>None\<close>: the result type is an optional view. The new row's \<open>created\<close>
  is the current instant (modelled from the spec: the \<^verbatim>\<open>Deed\<close> class is not among the
  sources).
\<close>

definition insert_deed ::
  "datetime \<Rightarrow> control \<Rightarrow> user \<Rightarrow> db_session \<Rightarrow> string
     \<Rightarrow> (error + deed_view option) \<times> control \<times> db_session" where
  "insert_deed now ctl u s descr =
     (let d = \<lparr>d_id = next_id (map d_id (deeds (view s))), description = descr, created = now\<rparr>;
          s1 = add_deed s d
      in (Inr None, broadcast_on_success ctl ''insert_deed'' (to_json d) None, s1))"

definition insert_deed_call ::
  "datetime \<Rightarrow> control \<Rightarrow> user \<Rightarrow> string \<Rightarrow> (error + deed_view option) \<times> control" where
  "insert_deed_call now = user_session (insert_deed now)"

text \<open>
  \<^verbatim>\<open>insert_deed\<close> of \<^verbatim>\<open>dogooder/actions/insert_deed.py\<close>. Its context is not among the
  sources (modelled from the spec: the context's session is the control's session scope,
  its \<^verbatim>\<open>broadcast\<close> puts a public event on the pending list, and
  \<^verbatim>\<open>detailed_deed_view\<close> is the deed's view).
\<close>

definition action_insert_deed ::
  "datetime \<Rightarrow> control \<Rightarrow> string \<Rightarrow> (error + deed_view) \<times> control" where
  "action_insert_deed now ctx descr =
     (case session ctx (\<lambda>c s.
        (let d = \<lparr>d_id = next_id (map d_id (deeds (view s))), description = descr,
                  created = now\<rparr>;
             s1 = add_deed s d;
             result = to_json d
         in (Inr result, broadcast_on_success c ''INSERT_DEED'' result None, s1))) of
        (r, ctl1, tr) \<Rightarrow> (r, ctl1))"

subsection \<open>One request\<close>

text \<open>
  Modelled from the spec: the transport layer, which is not among the sources, runs the
  work of a request and then calls \<^verbatim>\<open>_flush\<close> exactly once, with the exception when the
  work failed and without an argument when it succeeded.
\<close>

definition request ::
  "control \<Rightarrow> (control \<Rightarrow> db_session \<Rightarrow> (error + 'a) \<times> control \<times> db_session)
     \<Rightarrow> (error + 'a) \<times> control" where
  "request ctl work =
     (case session ctl work of
        (Inr v, ctl1, tr) \<Rightarrow> (Inr v, flush ctl1 None)
      | (Inl e, ctl1, tr) \<Rightarrow> (Inl e, flush ctl1 (Some e)))"

subsection \<open>Notions used to state the properties\<close>

text \<open>The start of the calendar day of an instant.\<close>

definition midnight :: "datetime \<Rightarrow> datetime" where
  "midnight t = \<lparr>year = year t, month = month t, day = day t, hour = 0, minute = 0, second = 0,
                 microsecond = 0\<rparr>"

text \<open>What a client is sent when a list of events is broadcast, in the order of the list.\<close>

definition received :: "event list \<Rightarrow> client \<Rightarrow> news list" where
  "received evs c =
     map (\<lambda>ev. (fst ev, fst (snd ev))) (filter (\<lambda>ev. interested (snd (snd ev)) c) evs)"

text \<open>
  A sequence of \<^verbatim>\<open>get_todays_deeds\<close> calls, by any clients at any instants, each on the
  control object the call before left; the value is the list of their results.
\<close>

fun todays_deeds_calls ::
  "(int \<Rightarrow> deed list \<Rightarrow> deed list) \<Rightarrow> control \<Rightarrow> (client \<times> datetime) list
     \<Rightarrow> (error + deed_view list) list" where
  "todays_deeds_calls rnd ctl [] = []"
| "todays_deeds_calls rnd ctl ((cl, t) # calls) =
     (case get_todays_deeds rnd ctl cl t of (r, ctl1) \<Rightarrow> r # todays_deeds_calls rnd ctl1 calls)"

subsection \<open>Concrete states\<close>

definition at_hour :: "int \<Rightarrow> int \<Rightarrow> int \<Rightarrow> int \<Rightarrow> datetime" where
  "at_hour y m d h = \<lparr>year = y, month = m, day = d, hour = h, minute = 0, second = 0,
                      microsecond = 0\<rparr>"

definition vote :: "int \<Rightarrow> int \<Rightarrow> int \<Rightarrow> datetime \<Rightarrow> accomplishment" where
  "vote k d u t = \<lparr>a_id = k, deed_id = d, user_id = u, completed = t\<rparr>"

definition client_of :: "int \<Rightarrow> client" where
  "client_of uid = \<lparr>c_user = Some \<lparr>uv_id = uid, uv_email = ''ann@example.org''\<rparr>, inbox = []\<rparr>"

definition anonymous :: client where
  "anonymous = \<lparr>c_user = None, inbox = []\<rparr>"

definition voter :: "int \<Rightarrow> string \<Rightarrow> user" where
  "voter uid em = \<lparr>u_id = uid, email = em, password = ''secret''\<rparr>"

text \<open>
  A poll on 2016-01-15 over two deeds with ids \<open>a\<close> and \<open>b\<close>: three votes for the
  first (users 1, 2 and 4), one for the second (user 3).
\<close>

definition poll_db :: "int \<Rightarrow> int \<Rightarrow> db" where
  "poll_db a b =
     \<lparr>users = [voter 1 ''ann@example.org'', voter 2 ''bob@example.org'',
               voter 3 ''cat@example.org'', voter 4 ''dan@example.org''],
      deeds = [\<lparr>d_id = a, description = ''Recycle'', created = at_hour 2016 1 1 0\<rparr>,
               \<lparr>d_id = b, description = ''Donate'', created = at_hour 2016 1 1 0\<rparr>],
      accomplishments = [vote 1 a 1 (at_hour 2016 1 15 8), vote 2 a 2 (at_hour 2016 1 15 9),
                         vote 3 b 3 (at_hour 2016 1 15 10), vote 4 a 4 (at_hour 2016 1 15 11)]\<rparr>"

definition poll_ctl :: "int \<Rightarrow> int \<Rightarrow> control" where
  "poll_ctl a b = \<lparr>store = poll_db a b, clients = [], pending = []\<rparr>"

text \<open>A control object with one user, one deed and the given rows of the vote ledger.\<close>

definition ledger_ctl :: "accomplishment list \<Rightarrow> control" where
  "ledger_ctl rows =
     \<lparr>store = \<lparr>users = [voter 1 ''ann@example.org''],
               deeds = [\<lparr>d_id = 1, description = ''Recycle'', created = at_hour 2016 1 1 0\<rparr>],
               accomplishments = rows\<rparr>,
      clients = [], pending = []\<rparr>"

text \<open>A control object with one anonymous client and two public events pending.\<close>

definition queue_ctl :: control where
  "queue_ctl =
     \<lparr>store = poll_db 1 2, clients = [anonymous],
      pending = [(''insert_deed'', to_json (hd (deeds (poll_db 1 2))), None),
                 (''update_deed'', to_json (hd (deeds (poll_db 1 2))), None)]\<rparr>"

text \<open>
  An order that depends on the seed, for the concrete states: the rows rotated by the
  seed modulo their number.
\<close>

definition seeded_order :: "int \<Rightarrow> deed list \<Rightarrow> deed list" where
  "seeded_order seed rows = rotate (nat (seed mod int (length rows))) rows"

text \<open>The poll after a third deed has been inserted at 9 o'clock on 2016-01-15.\<close>

definition later_ctl :: control where
  "later_ctl =
     \<lparr>store = (poll_db 1 2)\<lparr>deeds := deeds (poll_db 1 2) @
         [\<lparr>d_id = 3, description = ''Plant a tree'', created = at_hour 2016 1 15 9\<rparr>]\<rparr>,
      clients = [], pending = [(''insert_deed'',
         to_json \<lparr>d_id = 3, description = ''Plant a tree'', created = at_hour 2016 1 15 9\<rparr>,
         None)]\<rparr>"

text \<open>
  A unit of work that fails after it has written: the body of \<^verbatim>\<open>insert_deed\<close>, which
  adds a row and puts its notification on the pending list, followed by a failing lookup.
\<close>

definition failing_work ::
  "control \<Rightarrow> db_session \<Rightarrow> (error + unit) \<times> control \<times> db_session" where
  "failing_work c s =
     (case insert_deed (at_hour 2016 1 16 10) c (voter 1 ''ann@example.org'') s ''Plant a tree'' of
        (r, c1, s1) \<Rightarrow> (Inl NoResultFound, c1, s1))"

section \<open>Properties\<close>

subsection \<open>Dates\<close>

lemma mk_datetime_valid:
  "valid_datetime now \<Longrightarrow> mk_datetime (year now) (month now) (day now) = Inr (midnight now)"
  by (simp add: mk_datetime_def valid_datetime_def midnight_def)

lemma mk_datetime_past_month:
  "days_in_month y m < d \<Longrightarrow> mk_datetime y m d = Inl ValueError"
  by (simp add: mk_datetime_def)

lemmas eval_defs = todays_deeds_query_def mk_datetime_def plus_one_day_def days_in_month_def
  is_leap_def dt_less_def dt_le_def dt_key_def seed_of_def current_user_def one_or_none_def
  group_count_def int_is_def to_json_def poll_db_def poll_ctl_def vote_def at_hour_def
  client_of_def voter_def midnight_def valid_datetime_def

subsection \<open>Sessions that only read\<close>

lemma session_query:
  "session ctl (\<lambda>c s. (q (view s), c, s)) = (q (store ctl), ctl, [Commit, Close]) \<or>
   session ctl (\<lambda>c s. (q (view s), c, s)) = (q (store ctl), ctl, [Rollback, Close])"
  by (cases "q (store ctl)")
    (simp_all add: session_def new_session_def commit_def rollback_def close_def)

lemma get_todays_deeds_eq:
  "get_todays_deeds rnd ctl cl t = (todays_deeds_query rnd (store ctl) cl t, ctl)"
  using session_query [of ctl "\<lambda>d. todays_deeds_query rnd d cl t"]
  by (auto simp add: get_todays_deeds_def)

subsection \<open>The session scope\<close>

text \<open>
  C5. Whatever the body of the \<^verbatim>\<open>with\<close> statement does: when it returns normally the
  session is committed (the engine stores the session's view), when it raises the session
  is rolled back (the engine keeps what it stored) and the caller gets the same exception,
  and in both cases the last call on the session is \<^verbatim>\<open>close\<close>.
\<close>

theorem session_commit_or_rollback:
  assumes "work ctl (new_session (store ctl)) = (r, ctl1, s1)"
  shows "(case r of
            Inr v \<Rightarrow> session ctl work = (Inr v, ctl1\<lparr>store := view s1\<rparr>, trace s1 @ [Commit, Close])
          | Inl e \<Rightarrow> session ctl work =
                      (Inl e, ctl1\<lparr>store := committed s1\<rparr>, trace s1 @ [Rollback, Close]))
         \<and> last (snd (snd (session ctl work))) = Close"
  using assms
  by (cases r) (simp_all add: session_def commit_def rollback_def close_def)

lemma failing_work_queue:
  "failing_work queue_ctl (new_session (store queue_ctl)) =
     (Inl NoResultFound,
      queue_ctl\<lparr>pending := pending queue_ctl @
         [(''insert_deed'', to_json \<lparr>d_id = 3, description = ''Plant a tree'',
                                     created = at_hour 2016 1 16 10\<rparr>, None)]\<rparr>,
      add_deed (new_session (poll_db 1 2))
         \<lparr>d_id = 3, description = ''Plant a tree'', created = at_hour 2016 1 16 10\<rparr>)"
  by (simp add: failing_work_def insert_deed_def queue_ctl_def new_session_def next_id_def
      poll_db_def broadcast_on_success_def Let_def)

theorem session_commit_or_rollback_witness:
  "fst (session queue_ctl failing_work) = Inl NoResultFound
   \<and> store (fst (snd (session queue_ctl failing_work))) = store queue_ctl
   \<and> snd (snd (session queue_ctl failing_work)) = [Rollback, Close]"
  using session_commit_or_rollback [of failing_work queue_ctl, OF failing_work_queue]
  by (simp add: add_deed_def new_session_def queue_ctl_def)

subsection \<open>Reading deeds\<close>

text \<open>
  C9. \<^verbatim>\<open>get_todays_deeds\<close> only reads: for every client, every instant and every
  outcome (a result or an exception), the control object after the call is the one before
  it, with the same users, deeds and accomplishments stored, the same pending events and
  the same clients, none of which has been sent anything.
\<close>

theorem get_todays_deeds_read_only: "snd (get_todays_deeds rnd ctl cl today) = ctl"
  by (simp add: get_todays_deeds_eq)

text \<open>
  C10. Without a limit \<^verbatim>\<open>get_deeds\<close> returns the view of every stored deed; with the
  limit \<open>n\<close> it returns the views of the first \<open>n\<close> rows, so at most \<open>n\<close> of them;
  in both cases the control object and its database are unchanged.
\<close>

theorem get_deeds_all_or_limited:
  "get_deeds ctl None = (Inr (map to_json (deeds (store ctl))), ctl) \<and>
   get_deeds ctl (Some n) = (Inr (map to_json (take n (deeds (store ctl)))), ctl) \<and>
   length (map to_json (take n (deeds (store ctl)))) \<le> n"
  by (simp add: get_deeds_def session_def new_session_def commit_def rollback_def close_def)

subsection \<open>The pending list\<close>

lemma current_user_deliver: "current_user (deliver c n) = current_user c"
  by (simp add: deliver_def current_user_def)

lemma interested_deliver: "interested accl (deliver c n) = interested accl c"
  by (simp add: interested_def current_user_deliver split: option.splits)

lemma received_deliver: "received evs (deliver c n) = received evs c"
  by (simp add: received_def interested_deliver)

lemma received_Cons:
  "received (ev # evs) c =
     (if interested (snd (snd ev)) c then (fst ev, fst (snd ev)) # received evs c
      else received evs c)"
  by (simp add: received_def)

lemma foldl_broadcast:
  "foldl broadcast ctl evs =
     ctl\<lparr>clients := map (\<lambda>c. c\<lparr>inbox := inbox c @ received evs c\<rparr>) (clients ctl)\<rparr>"
proof (induction evs arbitrary: ctl)
  case Nil
  show ?case by (simp add: received_def)
next
  case (Cons ev evs)
  obtain sg m a where ev: "ev = (sg, m, a)" by (cases ev)
  show ?case
    unfolding foldl_Cons Cons.IH
    by (simp add: ev broadcast_def received_Cons deliver_def comp_def
        received_deliver [unfolded deliver_def] interested_deliver [unfolded deliver_def])
qed

text \<open>
  C4. \<^verbatim>\<open>_flush\<close> after a success sends every client the pending events it is
  interested in, in the order they were put on the list, and empties the list; after a
  failure it only empties the list. So a unit of work that fails after it has put events
  on the list, without having committed or broadcast anything itself, leaves the database
  and every client's inbox as they were: the request ends with the old control object and
  an empty list.
\<close>

theorem flush_broadcasts_or_discards:
  "flush ctl None =
     ctl\<lparr>clients := map (\<lambda>c. c\<lparr>inbox := inbox c @ received (pending ctl) c\<rparr>) (clients ctl),
         pending := []\<rparr>
   \<and> flush ctl (Some e) = ctl\<lparr>pending := []\<rparr>
   \<and> (work ctl (new_session (store ctl)) = (Inl e, ctl1, s1) \<and> committed s1 = store ctl
        \<and> clients ctl1 = clients ctl
      \<longrightarrow> request ctl work = (Inl e, ctl\<lparr>pending := []\<rparr>))"
proof (intro conjI impI)
  show "flush ctl None =
     ctl\<lparr>clients := map (\<lambda>c. c\<lparr>inbox := inbox c @ received (pending ctl) c\<rparr>) (clients ctl),
         pending := []\<rparr>"
    by (simp add: flush_def foldl_broadcast)
  show "flush ctl (Some e) = ctl\<lparr>pending := []\<rparr>"
    by (simp add: flush_def)
next
  assume h: "work ctl (new_session (store ctl)) = (Inl e, ctl1, s1) \<and> committed s1 = store ctl
        \<and> clients ctl1 = clients ctl"
  then have "session ctl work = (Inl e, ctl1\<lparr>store := store ctl\<rparr>, trace s1 @ [Rollback, Close])"
    by (simp add: session_def rollback_def close_def)
  moreover have "(ctl1\<lparr>store := store ctl\<rparr>)\<lparr>pending := []\<rparr> = ctl\<lparr>pending := []\<rparr>"
    using h by (cases ctl; cases ctl1) simp
  ultimately show "request ctl work = (Inl e, ctl\<lparr>pending := []\<rparr>)"
    by (simp add: request_def flush_def)
qed

theorem flush_broadcasts_or_discards_witness:
  "flush queue_ctl None =
     queue_ctl\<lparr>clients := [anonymous\<lparr>inbox :=
                   [(''insert_deed'', to_json (hd (deeds (poll_db 1 2)))),
                    (''update_deed'', to_json (hd (deeds (poll_db 1 2))))]\<rparr>],
               pending := []\<rparr>
   \<and> flush queue_ctl (Some NoResultFound) = queue_ctl\<lparr>pending := []\<rparr>
   \<and> fst (failing_work queue_ctl (new_session (store queue_ctl))) = Inl NoResultFound
   \<and> request queue_ctl failing_work = (Inl NoResultFound, queue_ctl\<lparr>pending := []\<rparr>)"
  using flush_broadcasts_or_discards
    [of queue_ctl NoResultFound failing_work
        "fst (snd (failing_work queue_ctl (new_session (store queue_ctl))))"
        "snd (snd (failing_work queue_ctl (new_session (store queue_ctl))))"]
  by (simp add: failing_work_queue)
    (simp add: queue_ctl_def anonymous_def received_def interested_def add_deed_def
      new_session_def)

subsection \<open>Signing in\<close>

text \<open>
  C8. When no stored user has the email, or the one user who has it does not pass
  \<^verbatim>\<open>authenticate\<close> with the password, \<^verbatim>\<open>sign_in\<close> raises the exception
  \<^verbatim>\<open>Email or password incorrect\<close>, and the client (its signed-in user included) and the
  control object are as before the call.
\<close>

theorem sign_in_rejected:
  assumes "filter (\<lambda>u. email u = em) (users (store ctl)) = [] \<or>
           (\<exists>u. filter (\<lambda>u. email u = em) (users (store ctl)) = [u] \<and> \<not> authenticate u pw)"
  shows "sign_in authenticate ctl cl em pw =
           (Inl (Exception ''Email or password incorrect''), cl, ctl)"
  using assms
  by (auto simp add: sign_in_def session_def new_session_def one_def rollback_def close_def)

theorem sign_in_rejected_witness:
  "sign_in (\<lambda>u pw. pw = password u) (poll_ctl 1 2) (client_of 2) ''eve@example.org'' ''secret'' =
     (Inl (Exception ''Email or password incorrect''), client_of 2, poll_ctl 1 2)
   \<and> sign_in (\<lambda>u pw. pw = password u) (poll_ctl 1 2) (client_of 2) ''ann@example.org'' ''guess'' =
     (Inl (Exception ''Email or password incorrect''), client_of 2, poll_ctl 1 2)"
proof -
  have a: "filter (\<lambda>u. email u = ''eve@example.org'') (users (store (poll_ctl 1 2))) = []"
    by (simp add: poll_ctl_def poll_db_def voter_def)
  have b: "filter (\<lambda>u. email u = ''ann@example.org'') (users (store (poll_ctl 1 2))) =
             [voter 1 ''ann@example.org'']
           \<and> \<not> ''guess'' = password (voter 1 ''ann@example.org'')"
    by (simp add: poll_ctl_def poll_db_def voter_def)
  show ?thesis
    using sign_in_rejected [of "''eve@example.org''" "poll_ctl 1 2" "\<lambda>u pw. pw = password u"
        "''secret''" "client_of 2"]
      sign_in_rejected [of "''ann@example.org''" "poll_ctl 1 2" "\<lambda>u pw. pw = password u"
        "''guess''" "client_of 2"] a b
    by simp
qed

subsection \<open>The window of \<^verbatim>\<open>accomplish_deed\<close>\<close>

lemma accomplish_deed_last_day:
  assumes "valid_datetime now" and "day now = days_in_month (year now) (month now)"
  shows "accomplish_deed now ctl u s i = (Inl ValueError, ctl, s)"
proof -
  have a: "mk_datetime (year now) (month now) (day now) = Inr (midnight now)"
    using assms(1) by (rule mk_datetime_valid)
  have b: "mk_datetime (year now) (month now) (day now + 1) = Inl ValueError"
    using assms(2) by (simp add: mk_datetime_past_month)
  show ?thesis
    unfolding accomplish_deed_def a b by simp
qed

lemma accomplish_deed_call_last_day:
  assumes "valid_datetime now" and "day now = days_in_month (year now) (month now)"
  shows "accomplish_deed_call now ctl u i = (Inl ValueError, ctl)"
proof -
  have "(\<lambda>c s. accomplish_deed now c u s i) = (\<lambda>c s. (Inl ValueError, c, s))"
    using accomplish_deed_last_day [OF assms] by simp
  then show ?thesis
    by (simp add: accomplish_deed_call_def user_session_def session_def new_session_def
        commit_def rollback_def close_def)
qed

text \<open>
  On any other day the constructor accepts \<^verbatim>\<open>now.day + 1\<close>, and the window is the one of
  the calendar day.
\<close>

lemma mk_datetime_next_day:
  assumes "valid_datetime now" and "day now < days_in_month (year now) (month now)"
  shows "mk_datetime (year now) (month now) (day now + 1) = Inr ((midnight now)\<lparr>day := day now + 1\<rparr>)
       \<and> plus_one_day (midnight now) = Inr ((midnight now)\<lparr>day := day now + 1\<rparr>)"
  using assms by (simp add: mk_datetime_def valid_datetime_def midnight_def plus_one_day_def)

lemma in_window_same_day:
  assumes "valid_datetime t" and "same_day t now"
  shows "dt_le (midnight now) t \<and> dt_less t ((midnight now)\<lparr>day := day now + 1\<rparr>)"
  using assms
  by (simp add: valid_datetime_def same_day_def dt_le_def dt_less_def dt_key_def midnight_def)

lemma accomplish_deed_already_voted:
  assumes "valid_datetime now" and "day now < days_in_month (year now) (month now)"
    and "a \<in> set (accomplishments (view s))" and "user_id a = u_id u"
    and "valid_datetime (completed a)" and "same_day (completed a) now"
  shows "accomplish_deed now ctl u s i = (Inl (Exception ''Deed already accomplished today''), ctl, s)"
proof -
  let ?tomorrow = "(midnight now)\<lparr>day := day now + 1\<rparr>"
  let ?rows = "filter (\<lambda>a. user_id a = u_id u \<and> dt_le (midnight now) (completed a)
                              \<and> dt_less (completed a) ?tomorrow) (accomplishments (view s))"
  have m: "mk_datetime (year now) (month now) (day now) = Inr (midnight now)"
    using assms(1) by (rule mk_datetime_valid)
  have n: "mk_datetime (year now) (month now) (day now + 1) = Inr ?tomorrow"
    using mk_datetime_next_day [OF assms(1,2)] by (rule conjunct1)
  have w: "dt_le (midnight now) (completed a) \<and> dt_less (completed a) ?tomorrow"
    using assms(5,6) by (rule in_window_same_day)
  have "a \<in> set ?rows"
    using assms(3,4) w by simp
  then have "0 < length ?rows"
    by (rule length_pos_if_in_set)
  then have l: "1 \<le> length ?rows"
    by (simp only: One_nat_def Suc_le_eq)
  have "accomplish_deed now ctl u s i =
     (if 1 \<le> length ?rows then (Inl (Exception ''Deed already accomplished today''), ctl, s)
      else (case one (filter (\<lambda>d. d_id d = i) (deeds (view s))) of
                 Inl e \<Rightarrow> (Inl e, ctl, s)
               | Inr d \<Rightarrow>
                 (let a = \<lparr>a_id = next_id (map a_id (accomplishments (view s))),
                           deed_id = d_id d, user_id = u_id u, completed = now\<rparr>;
                      s1 = add_accomplishment s a
                  in (Inr (), broadcast_on_success ctl ''update_deed'' (to_json d) None, s1))))"
    unfolding accomplish_deed_def m n by (simp only: sum.case Let_def)
  with l show ?thesis by (simp only: if_True)
qed

text \<open>
  Away from the last day of a month the single-vote rule holds: a first call that
  succeeds stores one row for the user, and a second call on the same day raises
  \<^verbatim>\<open>Deed already accomplished today\<close> and leaves the control object as it was.
\<close>

lemma accomplish_deed_success:
  assumes "accomplish_deed now ctl u s i = (Inr v, c, s1)"
  shows "\<exists>d. s1 = add_accomplishment s
             \<lparr>a_id = next_id (map a_id (accomplishments (view s))), deed_id = d,
              user_id = u_id u, completed = now\<rparr>"
proof (cases "mk_datetime (year now) (month now) (day now)")
  case (Inl e)
  with assms show ?thesis by (simp add: accomplish_deed_def)
next
  case today: (Inr today)
  show ?thesis
  proof (cases "mk_datetime (year now) (month now) (day now + 1)")
    case (Inl e)
    with assms today show ?thesis by (simp add: accomplish_deed_def)
  next
    case tomorrow: (Inr tomorrow)
    show ?thesis
    proof (cases "one (filter (\<lambda>d. d_id d = i) (deeds (view s)))")
      case (Inl e)
      with assms today tomorrow show ?thesis
        by (simp add: accomplish_deed_def Let_def split: if_splits)
    next
      case (Inr d)
      with assms today tomorrow show ?thesis
        by (simp add: accomplish_deed_def Let_def split: if_splits) blast
    qed
  qed
qed

lemma accomplish_deed_call_success:
  assumes "accomplish_deed_call now ctl u i = (Inr (), ctl1)"
  shows "\<exists>d k. accomplishments (store ctl1) =
            accomplishments (store ctl) @ [\<lparr>a_id = k, deed_id = d, user_id = u_id u, completed = now\<rparr>]"
proof -
  obtain r c s where w: "accomplish_deed now ctl u (new_session (store ctl)) i = (r, c, s)"
    by (cases "accomplish_deed now ctl u (new_session (store ctl)) i") blast
  have r: "r = Inr ()"
    using assms w
    by (cases r) (simp_all add: accomplish_deed_call_def user_session_def session_def Let_def)
  have c1: "ctl1 = c\<lparr>store := view s\<rparr>"
    using assms w r
    by (simp add: accomplish_deed_call_def user_session_def session_def commit_def close_def)
  obtain d where "s = add_accomplishment (new_session (store ctl))
             \<lparr>a_id = next_id (map a_id (accomplishments (view (new_session (store ctl))))),
              deed_id = d, user_id = u_id u, completed = now\<rparr>"
    using accomplish_deed_success w r by blast
  then have "accomplishments (view s) = accomplishments (store ctl) @
      [\<lparr>a_id = next_id (map a_id (accomplishments (store ctl))), deed_id = d,
        user_id = u_id u, completed = now\<rparr>]"
    by (simp add: add_accomplishment_def new_session_def)
  with c1 show ?thesis by simp
qed

lemma accomplish_deed_second_call:
  assumes "valid_datetime now1" and "valid_datetime now2" and "same_day now1 now2"
    and "day now2 < days_in_month (year now2) (month now2)"
    and "accomplish_deed_call now1 ctl u i = (Inr (), ctl1)"
  shows "accomplish_deed_call now2 ctl1 u j =
           (Inl (Exception ''Deed already accomplished today''), ctl1)"
proof -
  obtain d k where "accomplishments (store ctl1) =
      accomplishments (store ctl) @ [\<lparr>a_id = k, deed_id = d, user_id = u_id u, completed = now1\<rparr>]"
    using accomplish_deed_call_success [OF assms(5)] by blast
  then have "\<lparr>a_id = k, deed_id = d, user_id = u_id u, completed = now1\<rparr>
               \<in> set (accomplishments (view (new_session (store ctl1))))"
    by (simp add: new_session_def)
  then have "accomplish_deed now2 ctl1 u (new_session (store ctl1)) j =
      (Inl (Exception ''Deed already accomplished today''), ctl1, new_session (store ctl1))"
    using accomplish_deed_already_voted [OF assms(2,4), of _ "new_session (store ctl1)" u ctl1 j]
      assms(1,3) by simp
  then show ?thesis
    by (simp add: accomplish_deed_call_def user_session_def session_def new_session_def
        rollback_def close_def)
qed

text \<open>
  C6. On the last day of a month the constructor call with \<^verbatim>\<open>now.day + 1\<close> raises
  \<^verbatim>\<open>ValueError\<close>, so \<^verbatim>\<open>accomplish_deed\<close> fails before it reads anything, at noon of
  2016-01-31 and of 2016-12-31 for example; \<^verbatim>\<open>get_todays_deeds\<close> adds a
  \<^verbatim>\<open>timedelta\<close> of one day instead, which gives the next midnight on those days too.
\<close>

theorem accomplish_deed_window_fails_at_month_end:
  "accomplish_deed_call (at_hour 2016 1 31 12) ctl u i = (Inl ValueError, ctl)
   \<and> accomplish_deed_call (at_hour 2016 12 31 12) ctl u i = (Inl ValueError, ctl)
   \<and> plus_one_day (midnight (at_hour 2016 1 31 12)) = Inr (at_hour 2016 2 1 0)
   \<and> plus_one_day (midnight (at_hour 2016 12 31 12)) = Inr (at_hour 2017 1 1 0)"
proof -
  have "valid_datetime (at_hour 2016 1 31 12)" "valid_datetime (at_hour 2016 12 31 12)"
    by (simp_all add: valid_datetime_def at_hour_def days_in_month_def)
  moreover have "day (at_hour 2016 1 31 12) = days_in_month (year (at_hour 2016 1 31 12))
      (month (at_hour 2016 1 31 12))"
    "day (at_hour 2016 12 31 12) = days_in_month (year (at_hour 2016 12 31 12))
      (month (at_hour 2016 12 31 12))"
    by (simp_all add: at_hour_def days_in_month_def)
  ultimately have "accomplish_deed_call (at_hour 2016 1 31 12) ctl u i = (Inl ValueError, ctl)"
    "accomplish_deed_call (at_hour 2016 12 31 12) ctl u i = (Inl ValueError, ctl)"
    by (simp_all only: accomplish_deed_call_last_day)
  moreover have "plus_one_day (midnight (at_hour 2016 1 31 12)) = Inr (at_hour 2016 2 1 0)"
    "plus_one_day (midnight (at_hour 2016 12 31 12)) = Inr (at_hour 2017 1 1 0)"
    by (simp_all add: plus_one_day_def midnight_def at_hour_def days_in_month_def)
  ultimately show ?thesis by simp
qed

text \<open>
  On an ordinary day the ledger does what the rule says: the first call at 9 o'clock on
  2016-01-15 stores a row, the second call at noon raises
  \<^verbatim>\<open>Deed already accomplished today\<close> and stores nothing.
\<close>

lemma two_votes_mid_month:
  "accomplish_deed_call (at_hour 2016 1 15 9) (ledger_ctl []) (voter 1 ''ann@example.org'') 1 =
     (Inr (),
      (ledger_ctl [vote 1 1 1 (at_hour 2016 1 15 9)])
        \<lparr>pending := [(''update_deed'',
            to_json \<lparr>d_id = 1, description = ''Recycle'', created = at_hour 2016 1 1 0\<rparr>,
            None)]\<rparr>)
   \<and> accomplish_deed_call (at_hour 2016 1 15 12)
       ((ledger_ctl [vote 1 1 1 (at_hour 2016 1 15 9)])
          \<lparr>pending := [(''update_deed'',
              to_json \<lparr>d_id = 1, description = ''Recycle'', created = at_hour 2016 1 1 0\<rparr>,
              None)]\<rparr>)
       (voter 1 ''ann@example.org'') 1 =
     (Inl (Exception ''Deed already accomplished today''),
      (ledger_ctl [vote 1 1 1 (at_hour 2016 1 15 9)])
        \<lparr>pending := [(''update_deed'',
            to_json \<lparr>d_id = 1, description = ''Recycle'', created = at_hour 2016 1 1 0\<rparr>,
            None)]\<rparr>)"
proof -
  have first: "accomplish_deed_call (at_hour 2016 1 15 9) (ledger_ctl [])
      (voter 1 ''ann@example.org'') 1 =
     (Inr (),
      (ledger_ctl [vote 1 1 1 (at_hour 2016 1 15 9)])
        \<lparr>pending := [(''update_deed'',
            to_json \<lparr>d_id = 1, description = ''Recycle'', created = at_hour 2016 1 1 0\<rparr>,
            None)]\<rparr>)"
    by (simp add: accomplish_deed_call_def user_session_def session_def new_session_def
        accomplish_deed_def mk_datetime_def days_in_month_def is_leap_def at_hour_def
        ledger_ctl_def one_def next_id_def add_accomplishment_def broadcast_on_success_def
        commit_def close_def vote_def voter_def Let_def)
  have v: "valid_datetime (at_hour 2016 1 15 9)" "valid_datetime (at_hour 2016 1 15 12)"
    by (simp_all add: valid_datetime_def at_hour_def days_in_month_def)
  have s: "same_day (at_hour 2016 1 15 9) (at_hour 2016 1 15 12)"
    by (simp add: same_day_def at_hour_def)
  have d: "day (at_hour 2016 1 15 12) <
      days_in_month (year (at_hour 2016 1 15 12)) (month (at_hour 2016 1 15 12))"
    by (simp add: at_hour_def days_in_month_def)
  show ?thesis
    using first accomplish_deed_second_call [OF v s d first] by simp
qed

text \<open>
  C1. On 2016-01-31 the rule is not what the caller sees. Two calls by user 1 on that day,
  at 9 o'clock and at noon, both fail with the \<^verbatim>\<open>ValueError\<close> of the window
  computation, and the user has no row for the day. When the ledger already holds a row of
  the user inside that day's window, from midnight to the next midnight, the call at noon
  stores nothing, but again the exception is \<^verbatim>\<open>ValueError\<close> and not
  \<^verbatim>\<open>Deed already accomplished today\<close>.
\<close>

theorem second_vote_at_month_end_raises_value_error:
  "accomplish_deed_call (at_hour 2016 1 31 9) (ledger_ctl []) (voter 1 ''ann@example.org'') 1 =
       (Inl ValueError, ledger_ctl [])
   \<and> accomplish_deed_call (at_hour 2016 1 31 12) (ledger_ctl []) (voter 1 ''ann@example.org'') 1 =
       (Inl ValueError, ledger_ctl [])
   \<and> accomplishments (store (ledger_ctl [])) = []
   \<and> user_id (vote 1 1 1 (at_hour 2016 1 31 9)) = u_id (voter 1 ''ann@example.org'')
   \<and> dt_le (midnight (at_hour 2016 1 31 12)) (completed (vote 1 1 1 (at_hour 2016 1 31 9)))
   \<and> dt_less (completed (vote 1 1 1 (at_hour 2016 1 31 9))) (at_hour 2016 2 1 0)
   \<and> accomplish_deed_call (at_hour 2016 1 31 12) (ledger_ctl [vote 1 1 1 (at_hour 2016 1 31 9)])
         (voter 1 ''ann@example.org'') 1 =
       (Inl ValueError, ledger_ctl [vote 1 1 1 (at_hour 2016 1 31 9)])
   \<and> Inl ValueError \<noteq> (Inl (Exception ''Deed already accomplished today'') :: error + unit)"
proof -
  have v: "valid_datetime (at_hour 2016 1 31 9)" "valid_datetime (at_hour 2016 1 31 12)"
    by (simp_all add: valid_datetime_def at_hour_def days_in_month_def)
  have d: "day (at_hour 2016 1 31 9) = days_in_month (year (at_hour 2016 1 31 9))
      (month (at_hour 2016 1 31 9))"
    "day (at_hour 2016 1 31 12) = days_in_month (year (at_hour 2016 1 31 12))
      (month (at_hour 2016 1 31 12))"
    by (simp_all add: at_hour_def days_in_month_def)
  have "accomplish_deed_call (at_hour 2016 1 31 9) (ledger_ctl [])
      (voter 1 ''ann@example.org'') 1 = (Inl ValueError, ledger_ctl [])"
    using v(1) d(1) by (rule accomplish_deed_call_last_day)
  moreover have "\<And>rows. accomplish_deed_call (at_hour 2016 1 31 12) (ledger_ctl rows)
      (voter 1 ''ann@example.org'') 1 = (Inl ValueError, ledger_ctl rows)"
    using v(2) d(2) by (rule accomplish_deed_call_last_day)
  ultimately show ?thesis
    by (simp add: ledger_ctl_def vote_def voter_def at_hour_def midnight_def dt_le_def
        dt_less_def dt_key_def)
qed

subsection \<open>The daily pair\<close>

lemma plus_one_day_last_day:
  assumes "year t = 9999 \<and> month t = 12 \<and> day t = 31"
  shows "plus_one_day (midnight t) = Inl OverflowError"
  using assms by (simp add: plus_one_day_def midnight_def days_in_month_def)

lemma plus_one_day_other_day:
  assumes "valid_datetime t" and "\<not> (year t = 9999 \<and> month t = 12 \<and> day t = 31)"
  shows "\<exists>tm. plus_one_day (midnight t) = Inr tm"
proof (cases "year t = 9999 \<and> month t = 12")
  case True
  then have "days_in_month (year t) (month t) = 31" by (simp add: days_in_month_def)
  moreover from True assms have "day t < 31" by (simp add: valid_datetime_def days_in_month_def)
  ultimately show ?thesis by (simp add: plus_one_day_def midnight_def)
next
  case False
  with assms(1) have "month t < 12 \<or> year t < 9999" by (auto simp: valid_datetime_def)
  then show ?thesis by (auto simp add: plus_one_day_def midnight_def)
qed

lemma todays_deeds_query_anon:
  assumes "valid_datetime t" and "current_user cl = None"
  shows "todays_deeds_query rnd d cl t =
     (if year t = 9999 \<and> month t = 12 \<and> day t = 31 then Inl OverflowError
      else Inr (map to_json (take 2 (rnd (year t * 10000 + month t * 100 + day t)
                  (filter (\<lambda>x. dt_less (created x) (midnight t)) (deeds d))))))"
proof (cases "year t = 9999 \<and> month t = 12 \<and> day t = 31")
  case True
  then have "plus_one_day (midnight t) = Inl OverflowError" by (rule plus_one_day_last_day)
  then show ?thesis
    unfolding todays_deeds_query_def mk_datetime_valid [OF assms(1)]
    using True by simp
next
  case False
  obtain tm where tm: "plus_one_day (midnight t) = Inr tm"
    using plus_one_day_other_day [OF assms(1) False] by blast
  show ?thesis
    unfolding todays_deeds_query_def mk_datetime_valid [OF assms(1)]
    using False by (simp add: tm assms(2) seed_of_def)
qed

lemma same_day_fields:
  "same_day a b \<Longrightarrow> year a = year b \<and> month a = month b \<and> day a = day b \<and> midnight a = midnight b"
  by (simp add: same_day_def midnight_def)

lemma todays_deeds_calls_anon:
  assumes "\<forall>(cl, t) \<in> set calls. current_user cl = None \<and> valid_datetime t \<and> same_day t today"
  shows "\<forall>r \<in> set (todays_deeds_calls rnd ctl calls).
           r = (if year today = 9999 \<and> month today = 12 \<and> day today = 31 then Inl OverflowError
                else Inr (map to_json (take 2
                  (rnd (year today * 10000 + month today * 100 + day today)
                     (filter (\<lambda>x. dt_less (created x) (midnight today)) (deeds (store ctl)))))))"
  using assms
proof (induction calls)
  case Nil
  show ?case by simp
next
  case (Cons c calls)
  obtain cl t where c: "c = (cl, t)" by (cases c)
  from Cons.prems c have cl: "current_user cl = None" and t: "valid_datetime t"
    and sd: "same_day t today" by simp_all
  have "todays_deeds_query rnd (store ctl) cl t =
     (if year today = 9999 \<and> month today = 12 \<and> day today = 31 then Inl OverflowError
      else Inr (map to_json (take 2
                  (rnd (year today * 10000 + month today * 100 + day today)
                     (filter (\<lambda>x. dt_less (created x) (midnight today)) (deeds (store ctl)))))))"
    using todays_deeds_query_anon [OF t cl] same_day_fields [OF sd] by simp
  moreover from Cons have "\<forall>r \<in> set (todays_deeds_calls rnd ctl calls).
     r = (if year today = 9999 \<and> month today = 12 \<and> day today = 31 then Inl OverflowError
          else Inr (map to_json (take 2
                  (rnd (year today * 10000 + month today * 100 + day today)
                     (filter (\<lambda>x. dt_less (created x) (midnight today)) (deeds (store ctl)))))))"
    by simp
  ultimately show ?case
    by (simp add: c get_todays_deeds_eq)
qed

lemma todays_deeds_calls_length: "length (todays_deeds_calls rnd ctl calls) = length calls"
  by (induction calls arbitrary: ctl) (auto simp add: get_todays_deeds_eq)

text \<open>
  The claim C3 as it is written does not hold: with one eligible deed the sequence has one
  element, with none it is empty, and on 9999-12-31 the next midnight does not exist and
  the call raises \<^verbatim>\<open>OverflowError\<close>.
\<close>

theorem fewer_than_two_candidates:
  "fst (get_todays_deeds seeded_order (ledger_ctl []) anonymous (at_hour 2016 1 15 12)) =
     Inr [to_json \<lparr>d_id = 1, description = ''Recycle'', created = at_hour 2016 1 1 0\<rparr>]
   \<and> fst (get_todays_deeds seeded_order (ledger_ctl []) anonymous (at_hour 2016 1 1 12)) = Inr []
   \<and> fst (get_todays_deeds seeded_order (poll_ctl 1 2) anonymous (at_hour 9999 12 31 12)) =
     Inl OverflowError"
  unfolding get_todays_deeds_eq
  by (simp add: eval_defs ledger_ctl_def anonymous_def seeded_order_def)

text \<open>
  C3, amended. Fix a calendar day and the deeds created before its midnight, as the rows
  the engine reads. Every call of \<^verbatim>\<open>get_todays_deeds\<close> by a client that is not signed
  in, at any instant of that day, has the same outcome: the views of the first two rows
  (all of them, when there are fewer than two) of those deeds in the order the engine
  gives them for the seed \<open>year * 10000 + month * 100 + day\<close> of the date; on 9999-12-31
  the outcome of every call is \<^verbatim>\<open>OverflowError\<close>. This holds for each call of any
  sequence of such calls, and for a call on any other control object with the same deeds
  created before that midnight, whatever else it stores. When the engine's order keeps the
  number of rows, the sequence has two elements, or as many as there are eligible deeds.
\<close>

theorem daily_candidates:
  assumes "valid_datetime today"
    and "\<forall>(cl, t) \<in> set calls. current_user cl = None \<and> valid_datetime t \<and> same_day t today"
    and "current_user caller = None" and "valid_datetime instant" and "same_day instant today"
    and "filter (\<lambda>x. dt_less (created x) (midnight today)) (deeds (store other)) =
         filter (\<lambda>x. dt_less (created x) (midnight today)) (deeds (store ctl))"
  shows "(\<forall>r \<in> set (todays_deeds_calls rnd ctl calls).
           r = (if year today = 9999 \<and> month today = 12 \<and> day today = 31 then Inl OverflowError
                else Inr (map to_json (take 2
                  (rnd (year today * 10000 + month today * 100 + day today)
                     (filter (\<lambda>x. dt_less (created x) (midnight today)) (deeds (store ctl))))))))
      \<and> length (todays_deeds_calls rnd ctl calls) = length calls
      \<and> fst (get_todays_deeds rnd other caller instant) =
           (if year today = 9999 \<and> month today = 12 \<and> day today = 31 then Inl OverflowError
            else Inr (map to_json (take 2
                  (rnd (year today * 10000 + month today * 100 + day today)
                     (filter (\<lambda>x. dt_less (created x) (midnight today)) (deeds (store ctl)))))))
      \<and> (length (rnd (year today * 10000 + month today * 100 + day today)
                 (filter (\<lambda>x. dt_less (created x) (midnight today)) (deeds (store ctl)))) =
           length (filter (\<lambda>x. dt_less (created x) (midnight today)) (deeds (store ctl)))
          \<longrightarrow> (year today = 9999 \<and> month today = 12 \<and> day today = 31)
              \<or> (\<exists>vs. fst (get_todays_deeds rnd other caller instant) = Inr vs \<and>
                   length vs = min 2 (length
                     (filter (\<lambda>x. dt_less (created x) (midnight today)) (deeds (store ctl))))))"
proof -
  let ?elig = "filter (\<lambda>x. dt_less (created x) (midnight today)) (deeds (store ctl))"
  let ?seed = "year today * 10000 + month today * 100 + day today"
  let ?last = "year today = 9999 \<and> month today = 12 \<and> day today = 31"
  let ?out = "if ?last then Inl OverflowError
              else Inr (map to_json (take 2 (rnd ?seed ?elig)))"
  have one: "fst (get_todays_deeds rnd other caller instant) = ?out"
    using todays_deeds_query_anon [OF assms(4,3)] same_day_fields [OF assms(5)]
    by (simp add: get_todays_deeds_eq assms(6))
  have two: "length (rnd ?seed ?elig) = length ?elig \<longrightarrow>
      ?last \<or> (\<exists>vs. ?out = Inr vs \<and> length vs = min 2 (length ?elig))"
    by (simp add: min.commute)
  have three: "length (todays_deeds_calls rnd ctl calls) = length calls"
    by (rule todays_deeds_calls_length)
  have four: "\<forall>r \<in> set (todays_deeds_calls rnd ctl calls). r = ?out"
    using assms(2) by (rule todays_deeds_calls_anon)
  show ?thesis
    unfolding one using two three four by blast
qed

theorem daily_candidates_witness:
  "todays_deeds_calls seeded_order (poll_ctl 1 2)
      [(anonymous, at_hour 2016 1 15 8), (anonymous, at_hour 2016 1 15 20)] =
     [Inr [to_json \<lparr>d_id = 2, description = ''Donate'', created = at_hour 2016 1 1 0\<rparr>,
           to_json \<lparr>d_id = 1, description = ''Recycle'', created = at_hour 2016 1 1 0\<rparr>],
      Inr [to_json \<lparr>d_id = 2, description = ''Donate'', created = at_hour 2016 1 1 0\<rparr>,
           to_json \<lparr>d_id = 1, description = ''Recycle'', created = at_hour 2016 1 1 0\<rparr>]]
   \<and> fst (get_todays_deeds seeded_order later_ctl anonymous (at_hour 2016 1 15 12)) =
     Inr [to_json \<lparr>d_id = 2, description = ''Donate'', created = at_hour 2016 1 1 0\<rparr>,
          to_json \<lparr>d_id = 1, description = ''Recycle'', created = at_hour 2016 1 1 0\<rparr>]
   \<and> fst (get_todays_deeds seeded_order (poll_ctl 1 2) anonymous (at_hour 2016 1 16 12)) =
     Inr [to_json \<lparr>d_id = 1, description = ''Recycle'', created = at_hour 2016 1 1 0\<rparr>,
          to_json \<lparr>d_id = 2, description = ''Donate'', created = at_hour 2016 1 1 0\<rparr>]"
proof -
  have v: "valid_datetime (at_hour 2016 1 15 12)"
    "valid_datetime (at_hour 2016 1 15 8)" "valid_datetime (at_hour 2016 1 15 20)"
    "valid_datetime (at_hour 2016 1 16 12)"
    by (simp_all add: valid_datetime_def at_hour_def days_in_month_def)
  have h2: "\<forall>(cl, t) \<in> set [(anonymous, at_hour 2016 1 15 8), (anonymous, at_hour 2016 1 15 20)].
              current_user cl = None \<and> valid_datetime t \<and> same_day t (at_hour 2016 1 15 12)"
    using v by (simp add: anonymous_def current_user_def same_day_def at_hour_def)
  have h2': "\<forall>(cl, t) \<in> set ([] :: (client \<times> datetime) list).
              current_user cl = None \<and> valid_datetime t \<and> same_day t (at_hour 2016 1 16 12)"
    by simp
  have h3: "current_user anonymous = None"
    by (simp add: anonymous_def current_user_def)
  have h5: "same_day (at_hour 2016 1 15 12) (at_hour 2016 1 15 12)"
    "same_day (at_hour 2016 1 16 12) (at_hour 2016 1 16 12)"
    by (simp_all add: same_day_def)
  have e: "filter (\<lambda>x. dt_less (created x) (midnight (at_hour 2016 1 15 12)))
             (deeds (store (poll_ctl 1 2))) = deeds (poll_db 1 2)"
    "filter (\<lambda>x. dt_less (created x) (midnight (at_hour 2016 1 16 12)))
             (deeds (store (poll_ctl 1 2))) = deeds (poll_db 1 2)"
    "filter (\<lambda>x. dt_less (created x) (midnight (at_hour 2016 1 15 12)))
             (deeds (store later_ctl)) = deeds (poll_db 1 2)"
    by (simp_all add: later_ctl_def poll_ctl_def poll_db_def midnight_def at_hour_def
        dt_less_def dt_key_def)
  have h6: "filter (\<lambda>x. dt_less (created x) (midnight (at_hour 2016 1 15 12)))
             (deeds (store later_ctl)) =
            filter (\<lambda>x. dt_less (created x) (midnight (at_hour 2016 1 15 12)))
             (deeds (store (poll_ctl 1 2)))"
    by (simp only: e)
  have s: "year (at_hour 2016 1 15 12) * 10000 + month (at_hour 2016 1 15 12) * 100
             + day (at_hour 2016 1 15 12) = 20160115"
    "year (at_hour 2016 1 16 12) * 10000 + month (at_hour 2016 1 16 12) * 100
             + day (at_hour 2016 1 16 12) = 20160116"
    "(year (at_hour 2016 1 15 12) = 9999 \<and> month (at_hour 2016 1 15 12) = 12
            \<and> day (at_hour 2016 1 15 12) = 31) = False"
    "(year (at_hour 2016 1 16 12) = 9999 \<and> month (at_hour 2016 1 16 12) = 12
            \<and> day (at_hour 2016 1 16 12) = 31) = False"
    by (simp_all add: at_hour_def)
  have x: "map to_json (take 2 (seeded_order 20160115 (deeds (poll_db 1 2)))) =
     [to_json \<lparr>d_id = 2, description = ''Donate'', created = at_hour 2016 1 1 0\<rparr>,
      to_json \<lparr>d_id = 1, description = ''Recycle'', created = at_hour 2016 1 1 0\<rparr>]"
    "map to_json (take 2 (seeded_order 20160116 (deeds (poll_db 1 2)))) =
     [to_json \<lparr>d_id = 1, description = ''Recycle'', created = at_hour 2016 1 1 0\<rparr>,
      to_json \<lparr>d_id = 2, description = ''Donate'', created = at_hour 2016 1 1 0\<rparr>]"
    by (simp_all add: poll_db_def seeded_order_def)
  have l: "\<And>a xs. length xs = Suc (Suc 0) \<Longrightarrow> (\<forall>r \<in> set xs. r = a) \<Longrightarrow> xs = [a, a]"
    by (auto simp add: length_Suc_conv)
  note d = daily_candidates [where rnd = seeded_order and ctl = "poll_ctl 1 2"
      and other = later_ctl, OF v(1) h2 h3 v(1) h5(1) h6, unfolded e s x if_False]
  note d' = daily_candidates [where rnd = seeded_order and ctl = "poll_ctl 1 2"
      and other = "poll_ctl 1 2" and calls = "[]", OF v(4) h2' h3 v(4) h5(2) refl,
      unfolded e s x if_False]
  from d have "\<forall>r \<in> set (todays_deeds_calls seeded_order (poll_ctl 1 2)
      [(anonymous, at_hour 2016 1 15 8), (anonymous, at_hour 2016 1 15 20)]).
      r = Inr [to_json \<lparr>d_id = 2, description = ''Donate'', created = at_hour 2016 1 1 0\<rparr>,
               to_json \<lparr>d_id = 1, description = ''Recycle'', created = at_hour 2016 1 1 0\<rparr>]"
    by (rule conjunct1)
  moreover from d have "length (todays_deeds_calls seeded_order (poll_ctl 1 2)
      [(anonymous, at_hour 2016 1 15 8), (anonymous, at_hour 2016 1 15 20)]) = Suc (Suc 0)"
    by simp
  ultimately have "todays_deeds_calls seeded_order (poll_ctl 1 2)
      [(anonymous, at_hour 2016 1 15 8), (anonymous, at_hour 2016 1 15 20)] =
     [Inr [to_json \<lparr>d_id = 2, description = ''Donate'', created = at_hour 2016 1 1 0\<rparr>,
           to_json \<lparr>d_id = 1, description = ''Recycle'', created = at_hour 2016 1 1 0\<rparr>],
      Inr [to_json \<lparr>d_id = 2, description = ''Donate'', created = at_hour 2016 1 1 0\<rparr>,
           to_json \<lparr>d_id = 1, description = ''Recycle'', created = at_hour 2016 1 1 0\<rparr>]]"
    by (rule l [rotated])
  moreover from d have "fst (get_todays_deeds seeded_order later_ctl anonymous
      (at_hour 2016 1 15 12)) =
     Inr [to_json \<lparr>d_id = 2, description = ''Donate'', created = at_hour 2016 1 1 0\<rparr>,
          to_json \<lparr>d_id = 1, description = ''Recycle'', created = at_hour 2016 1 1 0\<rparr>]"
    by simp
  moreover from d' have "fst (get_todays_deeds seeded_order (poll_ctl 1 2) anonymous
      (at_hour 2016 1 16 12)) =
     Inr [to_json \<lparr>d_id = 1, description = ''Recycle'', created = at_hour 2016 1 1 0\<rparr>,
          to_json \<lparr>d_id = 2, description = ''Donate'', created = at_hour 2016 1 1 0\<rparr>]"
    by simp
  ultimately show ?thesis by simp
qed

subsection \<open>The share of votes\<close>

lemma count_rows:
  "length (filter (\<lambda>a. deed_id a = k) rows) = count_list (map deed_id rows) k"
  by (induction rows) auto

text \<open>The counts of the groups add up to the number of rows.\<close>

lemma sum_group_count: "sum_list (map snd (group_count rows)) = int (length rows)"
proof -
  let ?ks = "map deed_id rows"
  have "sum_list (map snd (group_count rows)) =
          sum_list (map (\<lambda>k. int (count_list ?ks k)) (remdups ?ks))"
    by (simp add: group_count_def comp_def count_rows)
  also have "\<dots> = (\<Sum>k\<in>set ?ks. int (count_list ?ks k))"
    by (simp add: sum_list_distinct_conv_sum_set)
  also have "\<dots> = int (\<Sum>k\<in>set ?ks. count_list ?ks k)"
    by simp
  also have "\<dots> = int (length ?ks)"
    by (simp add: sum_count_set)
  finally show ?thesis by simp
qed

lemma vote_loop_found:
  assumes "-5 \<le> deed_id achieved" and "deed_id achieved \<le> 256"
    and "deed_id achieved \<in> set ks" and "tv \<noteq> 0"
    and "find (\<lambda>x. d_id x = deed_id achieved) (deeds d) = Some x"
  shows "vote_loop achieved d tv (map (\<lambda>k. (k, f k)) ks) =
           Some (Inr [(to_json x)\<lparr>percent_of_votes :=
                        Some (percent_of (f (deed_id achieved)) tv)\<rparr>])"
  using assms(3)
proof (induction ks)
  case Nil
  then show ?case by simp
next
  case (Cons k ks)
  show ?case
  proof (cases "k = deed_id achieved")
    case True
    then show ?thesis using assms(1,2,4,5) by (simp add: int_is_def)
  next
    case False
    with Cons show ?thesis by (simp add: int_is_def)
  qed
qed

lemma vote_loop_missed:
  "256 < deed_id achieved \<Longrightarrow> vote_loop achieved d tv rows = None"
  by (induction rows) (auto simp add: int_is_def)

text \<open>
  A signed-in caller with exactly one vote in today's window, for a deed whose id lies
  between -5 and 256: the result is that deed's view with the share of today's votes.
\<close>

lemma todays_deeds_query_voted:
  assumes "valid_datetime today" and "plus_one_day (midnight today) = Inr tomorrow"
    and "current_user cl = Some uid" and "uid \<noteq> 0"
    and "filter (\<lambda>a. dt_le (midnight today) (completed a) \<and> dt_less (completed a) tomorrow
                       \<and> user_id a = uid) (accomplishments d) = [achieved]"
    and "-5 \<le> deed_id achieved" and "deed_id achieved \<le> 256"
    and "find (\<lambda>x. d_id x = deed_id achieved) (deeds d) = Some x"
  shows "todays_deeds_query rnd d cl today =
     Inr [(to_json x)\<lparr>percent_of_votes := Some
       (percent_of
          (int (length (filter (\<lambda>a. deed_id a = deed_id achieved)
             (filter (\<lambda>a. dt_le (midnight today) (completed a) \<and> dt_less (completed a) tomorrow)
                (accomplishments d)))))
          (int (length
             (filter (\<lambda>a. dt_le (midnight today) (completed a) \<and> dt_less (completed a) tomorrow)
                (accomplishments d)))))\<rparr>]"
proof -
  let ?w = "filter (\<lambda>a. dt_le (midnight today) (completed a) \<and> dt_less (completed a) tomorrow)
              (accomplishments d)"
  have "achieved \<in> set (filter (\<lambda>a. dt_le (midnight today) (completed a)
          \<and> dt_less (completed a) tomorrow \<and> user_id a = uid) (accomplishments d))"
    by (simp only: assms(5) list.set_intros)
  then have mem: "achieved \<in> set ?w" by simp
  then have k: "deed_id achieved \<in> set (remdups (map deed_id ?w))" by simp
  from mem have "0 < length ?w" by (rule length_pos_if_in_set)
  then have tv: "int (length ?w) \<noteq> 0" by simp
  have loop: "vote_loop achieved d (int (length ?w)) (group_count ?w) =
      Some (Inr [(to_json x)\<lparr>percent_of_votes := Some
        (percent_of (int (length (filter (\<lambda>a. deed_id a = deed_id achieved) ?w)))
           (int (length ?w)))\<rparr>])"
    unfolding group_count_def
    by (rule vote_loop_found [OF assms(6,7) k tv assms(8)])
  show ?thesis
    unfolding todays_deeds_query_def mk_datetime_valid [OF assms(1)]
    by (simp add: assms(2,3,4,5) one_or_none_def Let_def sum_group_count loop)
qed

text \<open>
  The same caller when the voted deed's id is above 256: the loop finds no row that is
  the same object as \<^verbatim>\<open>achieved.deed_id\<close>, and the result is the pair of candidates.
\<close>

lemma todays_deeds_query_large_id:
  assumes "valid_datetime today" and "plus_one_day (midnight today) = Inr tomorrow"
    and "current_user cl = Some uid" and "uid \<noteq> 0"
    and "filter (\<lambda>a. dt_le (midnight today) (completed a) \<and> dt_less (completed a) tomorrow
                       \<and> user_id a = uid) (accomplishments d) = [achieved]"
    and "256 < deed_id achieved"
  shows "todays_deeds_query rnd d cl today =
     Inr (map to_json (take 2 (rnd (seed_of today)
            (filter (\<lambda>x. dt_less (created x) (midnight today)) (deeds d)))))"
  unfolding todays_deeds_query_def mk_datetime_valid [OF assms(1)]
  by (simp add: assms(2,3,4,5) one_or_none_def Let_def vote_loop_missed [OF assms(6)])

text \<open>
  The percentages of the poll are exact: three votes of four are 75.0 and one of four is
  25.0. One vote of three is the double next to 100 / 3, which Python prints as
  \<^verbatim>\<open>33.333333333333336\<close>.
\<close>

lemma float_of_int_values:
  "float_of_int 100 = (7036874417766400, -46)"
  "float_of_int 1 = (4503599627370496, -52)"
  "float_of_int 3 = (6755399441055744, -51)"
  "float_of_int 4 = (4503599627370496, -50)"
  by (simp_all add: float_of_int_def round_ratio_def bit_length.simps Let_def)

lemma float_mul_values:
  "float_mul (7036874417766400, -46) (6755399441055744, -51) = (5277655813324800, -44)"
  "float_mul (7036874417766400, -46) (4503599627370496, -52) = (7036874417766400, -46)"
  by (simp_all add: float_mul_def round_ratio_def bit_length.simps Let_def)

lemma float_div_values:
  "float_div (5277655813324800, -44) (4503599627370496, -50) = (5277655813324800, -46)"
  "float_div (7036874417766400, -46) (4503599627370496, -50) = (7036874417766400, -48)"
  "float_div (7036874417766400, -46) (6755399441055744, -51) = (4691249611844267, -47)"
  by (simp_all add: float_div_def round_ratio_def bit_length.simps Let_def)

lemma percent_of_values:
  "percent_of 3 4 = 75"
  "percent_of 1 4 = 25"
  "percent_of 1 3 = 4691249611844267 / 140737488355328"
  by (simp_all add: percent_of_def float_of_int_values float_mul_values float_div_values
      double_value_def)

lemma one_vote_of_three:
  "33333333333333335 / 1000000000000000 < percent_of 1 3
   \<and> percent_of 1 3 < 33333333333333337 / 1000000000000000
   \<and> percent_of 1 3 \<noteq> 100 / 3"
  by (simp add: percent_of_values)

text \<open>
  The poll of the specification with the deed ids 1 and 2: the caller who voted for the
  deed with three of the four votes sees 75, the caller who voted for the other sees 25.
\<close>

lemma poll_small_ids:
  "get_todays_deeds rnd (poll_ctl 1 2) (client_of 1) (at_hour 2016 1 15 12) =
     (Inr [\<lparr>v_id = 1, v_description = ''Recycle'', v_created = at_hour 2016 1 1 0,
            percent_of_votes = Some 75\<rparr>], poll_ctl 1 2)
   \<and> get_todays_deeds rnd (poll_ctl 1 2) (client_of 3) (at_hour 2016 1 15 12) =
     (Inr [\<lparr>v_id = 2, v_description = ''Donate'', v_created = at_hour 2016 1 1 0,
            percent_of_votes = Some 25\<rparr>], poll_ctl 1 2)"
  unfolding get_todays_deeds_eq by (simp add: eval_defs percent_of_values)

lemma to_json_no_percent: "v \<in> set (map to_json xs) \<Longrightarrow> percent_of_votes v = None"
  by (auto simp add: to_json_def)

text \<open>
  C2. The same poll with the deed ids 300 and 301. User 1 has one vote today, for deed
  300, which has three of today's four votes. The call returns the candidates the engine
  orders for the seed 20160115, as it does for a caller who has not voted, and not the
  single view of deed 300 with 75 percent.
\<close>

theorem voted_deed_above_256_gets_candidates:
  "filter (\<lambda>a. user_id a = 1) (accomplishments (store (poll_ctl 300 301))) =
     [vote 1 300 1 (at_hour 2016 1 15 8)]
   \<and> fst (get_todays_deeds rnd (poll_ctl 300 301) (client_of 1) (at_hour 2016 1 15 12)) =
       Inr (map to_json (take 2 (rnd 20160115 (deeds (poll_db 300 301)))))
   \<and> fst (get_todays_deeds rnd (poll_ctl 300 301) (client_of 1) (at_hour 2016 1 15 12)) \<noteq>
       Inr [\<lparr>v_id = 300, v_description = ''Recycle'', v_created = at_hour 2016 1 1 0,
             percent_of_votes = Some 75\<rparr>]"
proof -
  have a: "filter (\<lambda>a. user_id a = 1) (accomplishments (store (poll_ctl 300 301))) =
     [vote 1 300 1 (at_hour 2016 1 15 8)]"
    by (simp add: poll_ctl_def poll_db_def vote_def)
  have b: "fst (get_todays_deeds rnd (poll_ctl 300 301) (client_of 1) (at_hour 2016 1 15 12)) =
       Inr (map to_json (take 2 (rnd 20160115 (deeds (poll_db 300 301)))))"
    unfolding get_todays_deeds_eq by (simp add: eval_defs)
  have "map to_json (take 2 (rnd 20160115 (deeds (poll_db 300 301)))) \<noteq>
       [\<lparr>v_id = 300, v_description = ''Recycle'', v_created = at_hour 2016 1 1 0,
             percent_of_votes = Some 75\<rparr>]"
  proof
    assume "map to_json (take 2 (rnd 20160115 (deeds (poll_db 300 301)))) =
       [\<lparr>v_id = 300, v_description = ''Recycle'', v_created = at_hour 2016 1 1 0,
             percent_of_votes = Some 75\<rparr>]"
    then have "\<lparr>v_id = 300, v_description = ''Recycle'', v_created = at_hour 2016 1 1 0,
             percent_of_votes = Some 75\<rparr>
        \<in> set (map to_json (take 2 (rnd 20160115 (deeds (poll_db 300 301)))))"
      by (simp only: list.set_intros)
    then have "percent_of_votes \<lparr>v_id = 300, v_description = ''Recycle'',
        v_created = at_hour 2016 1 1 0, percent_of_votes = Some (75 :: rat)\<rparr> = None"
      by (rule to_json_no_percent)
    then show False by simp
  qed
  with a b show ?thesis by simp
qed

subsection \<open>Inserting a deed\<close>

text \<open>
  \<^verbatim>\<open>insert_deed\<close> of \<^verbatim>\<open>dogooder/actions/insert_deed.py\<close> stores the deed, puts the
  public \<^verbatim>\<open>INSERT_DEED\<close> event with the deed's view on the pending list and returns
  that view.
\<close>

lemma action_insert_deed_eq:
  "action_insert_deed now ctl descr =
     (Inr (to_json \<lparr>d_id = next_id (map d_id (deeds (store ctl))), description = descr,
                    created = now\<rparr>),
      ctl\<lparr>store := (store ctl)\<lparr>deeds := deeds (store ctl) @
              [\<lparr>d_id = next_id (map d_id (deeds (store ctl))), description = descr,
                created = now\<rparr>]\<rparr>,
          pending := pending ctl @
              [(''INSERT_DEED'',
                to_json \<lparr>d_id = next_id (map d_id (deeds (store ctl))), description = descr,
                         created = now\<rparr>, None)]\<rparr>)"
  by (simp add: action_insert_deed_def session_def new_session_def
      add_deed_def broadcast_on_success_def commit_def close_def Let_def)

text \<open>
  C7. \<^verbatim>\<open>Control.insert_deed\<close> stores a deed with the description and puts the public
  \<^verbatim>\<open>insert_deed\<close> event with the deed's view on the pending list, but what it returns
  to the caller is \<^verbatim>\<open>None\<close>, for every description, not the view.
\<close>

theorem control_insert_deed_returns_none:
  "insert_deed_call now ctl u descr =
     (Inr None,
      ctl\<lparr>store := (store ctl)\<lparr>deeds := deeds (store ctl) @
              [\<lparr>d_id = next_id (map d_id (deeds (store ctl))), description = descr,
                created = now\<rparr>]\<rparr>,
          pending := pending ctl @
              [(''insert_deed'',
                to_json \<lparr>d_id = next_id (map d_id (deeds (store ctl))), description = descr,
                         created = now\<rparr>, None)]\<rparr>)"
  by (simp add: insert_deed_call_def user_session_def insert_deed_def session_def new_session_def
      add_deed_def broadcast_on_success_def commit_def close_def Let_def)

end
